theory Spec2Isabelle
  imports Main "HOL-Library.Multiset" "HOL-Library.Sublist"
begin

section \<open>Values of the request body\<close>

text \<open>
  \<^verbatim>\<open>bodyParser.json()\<close> parses a JSON body into \<^verbatim>\<open>req.body\<close>, and
  \<^verbatim>\<open>const { name, email, about, prompt } = req.body\<close> reads four properties of it.
  A property is a JavaScript value: \<open>JUndefined\<close> when the key is absent, otherwise what
  the JSON held. Strings are kept as their UTF-8 bytes (the regular expression \<^verbatim>\<open>/\n/g\<close>
  and the emptiness test act the same on bytes and on code units). A number is a safe
  integer, of magnitude below \<open>2^53\<close>: these are the integers a double holds exactly
  and JavaScript prints digit by digit. Other numbers, arrays and objects as values of
  a property are outside this model.
\<close>

typedef safe_integer = "{n :: int. - (2 ^ 53) < n \<and> n < 2 ^ 53}"
  by (rule exI [of _ 0]) simp

datatype jsval = JUndefined | JNull | JBool bool | JNum safe_integer | JStr string

text \<open>
  The four properties of a parsed body. A body that is a JSON array, or the empty
  object an older parser leaves for a request without JSON, has all four undefined.
\<close>

record req_body =
  name :: jsval
  email :: jsval
  about :: jsval
  prompt :: jsval

text \<open>\<^verbatim>\<open>!v\<close>: the values JavaScript counts as false.\<close>

fun falsy :: "jsval \<Rightarrow> bool" where
  "falsy JUndefined = True"
| "falsy JNull = True"
| "falsy (JBool b) = (\<not> b)"
| "falsy (JNum n) = (Rep_safe_integer n = 0)"
| "falsy (JStr s) = (s = [])"

text \<open>\<^verbatim>\<open>a || b\<close> on values.\<close>

definition js_or :: "jsval \<Rightarrow> jsval \<Rightarrow> jsval" where
  "js_or a b = (if falsy a then b else a)"

text \<open>Decimal digits of a number, as \<^verbatim>\<open>String(n)\<close> prints an integer.\<close>

definition digit :: "nat \<Rightarrow> char" where
  "digit d = ''0123456789'' ! d"

fun show_nat :: "nat \<Rightarrow> string" where
  "show_nat n = (if n < 10 then [digit n] else show_nat (n div 10) @ [digit (n mod 10)])"

declare show_nat.simps [simp del]

definition show_int :: "int \<Rightarrow> string" where
  "show_int i = (if i < 0 then CHR ''-'' # show_nat (nat (- i)) else show_nat (nat i))"

text \<open>The conversion a template literal \<^verbatim>\<open>${v}\<close> applies.\<close>

fun to_string :: "jsval \<Rightarrow> string" where
  "to_string JUndefined = ''undefined''"
| "to_string JNull = ''null''"
| "to_string (JBool b) = (if b then ''true'' else ''false'')"
| "to_string (JNum n) = show_int (Rep_safe_integer n)"
| "to_string (JStr s) = s"

text \<open>A thrown value: the constructor that made it and its \<^verbatim>\<open>message\<close>.\<close>

datatype js_error = Error string | TypeError string

fun message :: "js_error \<Rightarrow> string" where
  "message (Error m) = m"
| "message (TypeError m) = m"

text \<open>
  \<^verbatim>\<open>prompt.replace(/\n/g, '<br>')\<close>: every line feed becomes the four characters
  \<^verbatim>\<open><br>\<close>. Only a string has the method; on a number or a boolean the call throws a
  TypeError, as does the property read on \<^verbatim>\<open>undefined\<close> and \<^verbatim>\<open>null\<close>.
\<close>

definition replace_newlines :: "string \<Rightarrow> string" where
  "replace_newlines s = concat (map (\<lambda>c. if c = CHR 0x0A then ''<br>'' else [c]) s)"

fun prompt_replace :: "jsval \<Rightarrow> js_error + string" where
  "prompt_replace (JStr s) = Inr (replace_newlines s)"
| "prompt_replace JUndefined = Inl (TypeError ''Cannot read properties of undefined (reading replace)'')"
| "prompt_replace JNull = Inl (TypeError ''Cannot read properties of null (reading replace)'')"
| "prompt_replace (JBool b) = Inl (TypeError ''prompt.replace is not a function'')"
| "prompt_replace (JNum n) = Inl (TypeError ''prompt.replace is not a function'')"

section \<open>The world outside the handlers\<close>

text \<open>
  A row of the table created by \<^verbatim>\<open>initializeDatabase\<close>: \<^verbatim>\<open>name\<close>, \<^verbatim>\<open>email\<close> and
  \<^verbatim>\<open>prompt\<close> are \<^verbatim>\<open>TEXT NOT NULL\<close>, \<^verbatim>\<open>about\<close> is a nullable \<^verbatim>\<open>TEXT\<close>. The
  program never writes \<^verbatim>\<open>submission_date\<close>, so the column always holds its default,
  the time of the insert, and is kept here as a plain number.
\<close>

record submission =
  row_id :: nat
  row_name :: string
  row_email :: string
  row_about :: "string option"
  row_prompt :: string
  submission_date :: int

text \<open>The object given to \<^verbatim>\<open>transporter.sendMail\<close>.\<close>

record mail =
  from_field :: string
  to_field :: "string option"
  replyTo :: jsval
  subject :: string
  html :: string

text \<open>The three statements the program sends to the database.\<close>

datatype statement = CreateTableIfNotExists | InsertReturningId | SelectOrderByDateDesc

text \<open>A line of \<^verbatim>\<open>console.log\<close> or \<^verbatim>\<open>console.error\<close>, with its arguments.\<close>

datatype log_arg = Text string | Thrown js_error

datatype log_entry = Log "log_arg list" | LogError "log_arg list"

text \<open>
  Everything the handlers read or change lies outside the program: the database, the
  connection pool, the mail transport, the console, the file system and the
  environment variables. The record holds their state together with what they will
  answer: \<open>connect_error\<close> is the rejection of \<^verbatim>\<open>pool.connect\<close>, if any,
  \<open>query_error\<close> the rejection of a statement with its parameters, if any, and
  \<open>send_result\<close> the transport's answer to a message (a rejection, or the message id).
  \<open>table\<close> is \<open>None\<close> while the relation does not exist; \<open>checked_out\<close> counts the
  clients taken from the pool and not yet released; \<open>outbox\<close> lists the calls of
  \<^verbatim>\<open>sendMail\<close> in order.
\<close>

record world =
  table :: "submission list option"
  next_id :: nat
  now :: int
  connect_error :: "js_error option"
  query_error :: "statement \<Rightarrow> jsval list \<Rightarrow> js_error option"
  checked_out :: nat
  send_result :: "mail \<Rightarrow> js_error + string"
  outbox :: "mail list"
  console :: "log_entry list"
  files :: "string \<Rightarrow> string option"
  EMAIL_USER :: "string option"
  EMAIL_RECEIVER :: "string option"

definition console_log :: "log_arg list \<Rightarrow> world \<Rightarrow> world" where
  "console_log args w = w\<lparr>console := console w @ [Log args]\<rparr>"

definition console_error :: "log_arg list \<Rightarrow> world \<Rightarrow> world" where
  "console_error args w = w\<lparr>console := console w @ [LogError args]\<rparr>"

text \<open>\<^verbatim>\<open>${process.env.X}\<close>: an unset variable prints as \<^verbatim>\<open>undefined\<close>.\<close>

definition env_string :: "string option \<Rightarrow> string" where
  "env_string v = (case v of None \<Rightarrow> ''undefined'' | Some s \<Rightarrow> s)"

subsection \<open>The database\<close>

text \<open>
  How the driver passes a parameter: \<^verbatim>\<open>undefined\<close> and \<^verbatim>\<open>null\<close> become SQL NULL,
  every other value its text.
\<close>

fun to_param :: "jsval \<Rightarrow> string option" where
  "to_param JUndefined = None"
| "to_param JNull = None"
| "to_param v = Some (to_string v)"

text \<open>\<^verbatim>\<open>CREATE TABLE IF NOT EXISTS submissions (...)\<close>.\<close>

definition exec_create :: "world \<Rightarrow> (js_error + unit) \<times> world" where
  "exec_create w =
     (case table w of
        None \<Rightarrow> (Inr (), w\<lparr>table := Some []\<rparr>)
      | Some rows \<Rightarrow> (Inr (), w))"

text \<open>
  \<^verbatim>\<open>INSERT INTO submissions (name, email, about, prompt) VALUES ($1, $2, $3, $4)
  RETURNING id\<close>: the new row takes the next value of the serial and the current time.
\<close>

fun exec_insert :: "jsval list \<Rightarrow> world \<Rightarrow> (js_error + nat) \<times> world" where
  "exec_insert [n, e, a, p] w =
     (case table w of
        None \<Rightarrow> (Inl (Error ''relation submissions does not exist''), w)
      | Some rows \<Rightarrow>
          (case (to_param n, to_param e, to_param p) of
             (Some n', Some e', Some p') \<Rightarrow>
               (Inr (next_id w),
                w\<lparr>table := Some (rows @
                       [\<lparr>row_id = next_id w, row_name = n', row_email = e',
                         row_about = to_param a, row_prompt = p',
                         submission_date = now w\<rparr>]),
                  next_id := Suc (next_id w)\<rparr>)
           | _ \<Rightarrow> (Inl (Error ''null value violates not-null constraint''), w)))"
| "exec_insert vs w = (Inl (Error ''bind message supplies the wrong number of parameters''), w)"

text \<open>
  \<^verbatim>\<open>SELECT * FROM submissions ORDER BY submission_date DESC\<close>: all rows, the latest
  first. SQL leaves the order of rows with equal dates open; here a row stays behind
  the rows of the same date that were stored before it.
\<close>

fun insert_desc :: "submission \<Rightarrow> submission list \<Rightarrow> submission list" where
  "insert_desc r [] = [r]"
| "insert_desc r (x # xs) =
     (if submission_date x < submission_date r then r # x # xs else x # insert_desc r xs)"

definition order_by_date_desc :: "submission list \<Rightarrow> submission list" where
  "order_by_date_desc rows = foldl (\<lambda>acc r. insert_desc r acc) [] rows"

definition exec_select :: "world \<Rightarrow> (js_error + submission list) \<times> world" where
  "exec_select w =
     (case table w of
        None \<Rightarrow> (Inl (Error ''relation submissions does not exist''), w)
      | Some rows \<Rightarrow> (Inr (order_by_date_desc rows), w))"

text \<open>
  \<^verbatim>\<open>client.query\<close> on a connection: the statement is rejected when the world says
  so, and runs otherwise.
\<close>

definition client_query ::
  "statement \<Rightarrow> jsval list \<Rightarrow> (world \<Rightarrow> (js_error + 'a) \<times> world) \<Rightarrow> world \<Rightarrow> (js_error + 'a) \<times> world" where
  "client_query st params exec w =
     (case query_error w st params of
        Some err \<Rightarrow> (Inl err, w)
      | None \<Rightarrow> exec w)"

text \<open>\<^verbatim>\<open>pool.connect()\<close> takes a client from the pool, \<^verbatim>\<open>client.release()\<close> gives it back.\<close>

definition pool_connect :: "world \<Rightarrow> (js_error + unit) \<times> world" where
  "pool_connect w =
     (case connect_error w of
        Some err \<Rightarrow> (Inl err, w)
      | None \<Rightarrow> (Inr (), w\<lparr>checked_out := Suc (checked_out w)\<rparr>))"

definition client_release :: "world \<Rightarrow> world" where
  "client_release w = w\<lparr>checked_out := checked_out w - 1\<rparr>"

text \<open>
  \<^verbatim>\<open>pool.query\<close> of the driver: it takes a client, runs the statement on it and
  releases the client whether the statement resolved or was rejected.
\<close>

definition pool_query ::
  "statement \<Rightarrow> jsval list \<Rightarrow> (world \<Rightarrow> (js_error + 'a) \<times> world) \<Rightarrow> world \<Rightarrow> (js_error + 'a) \<times> world" where
  "pool_query st params exec w =
     (case pool_connect w of
        (Inl err, w1) \<Rightarrow> (Inl err, w1)
      | (Inr _, w1) \<Rightarrow>
          (case client_query st params exec w1 of
             (r, w2) \<Rightarrow> (r, client_release w2)))"

subsection \<open>The mail transport\<close>

text \<open>\<^verbatim>\<open>transporter.sendMail(mailOptions)\<close>: the attempt is recorded, the world answers.\<close>

definition sendMail :: "mail \<Rightarrow> world \<Rightarrow> (js_error + string) \<times> world" where
  "sendMail m w = (send_result w m, w\<lparr>outbox := outbox w @ [m]\<rparr>)"

section \<open>The handlers\<close>

text \<open>
  What \<^verbatim>\<open>res\<close> sends: the status and the body. \<open>MessageJson m\<close> is the JSON object
  \<^verbatim>\<open>{message: m}\<close>, \<open>ErrorJson m\<close> is \<^verbatim>\<open>{error: m}\<close>, \<open>RowsJson rows\<close> the JSON array
  of the rows, \<open>FileContent c\<close> a file served as it is, \<open>NotFound\<close> the framework's page
  for a file that is absent.
\<close>

datatype res_body =
  MessageJson string | ErrorJson string | RowsJson "submission list"
| FileContent string | NotFound

record response =
  status :: nat
  body :: res_body

subsection \<open>\<^verbatim>\<open>initializeDatabase\<close>\<close>

text \<open>
  The body of the \<^verbatim>\<open>try\<close>: connect, create the table, release, log. A rejection
  leaves the block at once, so a rejected \<^verbatim>\<open>client.query\<close> skips
  \<^verbatim>\<open>client.release()\<close>.
\<close>

definition initialize_try :: "world \<Rightarrow> (js_error + unit) \<times> world" where
  "initialize_try w =
     (case pool_connect w of
        (Inl err, w1) \<Rightarrow> (Inl err, w1)
      | (Inr _, w1) \<Rightarrow>
          (case client_query CreateTableIfNotExists [] exec_create w1 of
             (Inl err, w2) \<Rightarrow> (Inl err, w2)
           | (Inr _, w2) \<Rightarrow>
               (Inr (),
                console_log [Text ''Connected to PostgreSQL and Submissions table is ready.'']
                  (client_release w2))))"

text \<open>
  The function with its \<^verbatim>\<open>catch\<close>. The first component is what the returned promise
  settles to: \<open>Inr ()\<close> when it resolves, \<open>Inl err\<close> when \<open>err\<close> escapes.
\<close>

definition initializeDatabase :: "world \<Rightarrow> (js_error + unit) \<times> world" where
  "initializeDatabase w =
     (case initialize_try w of
        (Inr u, w1) \<Rightarrow> (Inr u, w1)
      | (Inl err, w1) \<Rightarrow>
          (Inr (),
           console_error
             [Text ''Error connecting to or initializing PostgreSQL:'', Text (message err)] w1))"

subsection \<open>\<^verbatim>\<open>POST /submit\<close>\<close>

definition "values" :: "req_body \<Rightarrow> jsval list" where
  "values b = [name b, email b, about b, prompt b]"

text \<open>
  The template of the HTML body begins with a line break and indents each line by
  eight pairs of a no-break space (bytes C2 A0) and a space; the closing line has six.
\<close>

definition indent :: "nat \<Rightarrow> string" where
  "indent k = concat (replicate k [CHR 0xC2, CHR 0xA0, CHR 0x20])"

definition html_template :: "string \<Rightarrow> string \<Rightarrow> string \<Rightarrow> string \<Rightarrow> string" where
  "html_template n e a details =
     [CHR 0x0A] @ indent 8 @ ''<h2>New Contact Form Submission</h2>'' @
     [CHR 0x0A] @ indent 8 @ ''<p><strong>Name:</strong> '' @ n @ ''</p>'' @
     [CHR 0x0A] @ indent 8 @ ''<p><strong>Email:</strong> '' @ e @ ''</p>'' @
     [CHR 0x0A] @ indent 8 @ ''<p><strong>Subject (About):</strong> '' @ a @ ''</p>'' @
     [CHR 0x0A] @ indent 8 @ ''<h3>Details:</h3>'' @
     [CHR 0x0A] @ indent 8 @ ''<p>'' @ details @ ''</p>'' @
     [CHR 0x0A] @ indent 6"

text \<open>
  The object literal \<^verbatim>\<open>mailOptions\<close>. Its last property calls \<^verbatim>\<open>prompt.replace\<close>,
  which may throw.
\<close>

definition mailOptions :: "world \<Rightarrow> req_body \<Rightarrow> js_error + mail" where
  "mailOptions w b =
     (case prompt_replace (prompt b) of
        Inl err \<Rightarrow> Inl err
      | Inr details \<Rightarrow>
          Inr \<lparr>from_field = to_string (name b) @ '' <'' @ env_string (EMAIL_USER w) @ ''>'',
               to_field = EMAIL_RECEIVER w,
               replyTo = email b,
               subject = ''New Portfolio Inquiry: '' @ to_string (js_or (about b) (JStr ''General''))
                           @ '' from '' @ to_string (name b),
               html = html_template (to_string (name b)) (to_string (email b))
                        (to_string (js_or (about b) (JStr ''Not specified''))) details\<rparr>)"

text \<open>\<^verbatim>\<open>pool.query(insertSql, values)\<close>, resolving to the generated id.\<close>

definition insert_submission :: "req_body \<Rightarrow> world \<Rightarrow> (js_error + nat) \<times> world" where
  "insert_submission b w = pool_query InsertReturningId (values b) (exec_insert (values b)) w"

text \<open>The body of the \<^verbatim>\<open>try\<close>: insert, log, compose, send, log, answer.\<close>

definition submit_try :: "req_body \<Rightarrow> world \<Rightarrow> (js_error + response) \<times> world" where
  "submit_try b w =
     (case insert_submission b w of
        (Inl err, w1) \<Rightarrow> (Inl err, w1)
      | (Inr new_id, w1) \<Rightarrow>
          (let w2 = console_log [Text (''Saved submission ID: '' @ show_nat new_id)] w1 in
           case mailOptions w2 b of
             Inl err \<Rightarrow> (Inl err, w2)
           | Inr m \<Rightarrow>
               (case sendMail m w2 of
                  (Inl err, w3) \<Rightarrow> (Inl err, w3)
                | (Inr messageId, w3) \<Rightarrow>
                    (Inr \<lparr>status = 200,
                          body = MessageJson ''Form submitted and email sent successfully!''\<rparr>,
                     console_log [Text ''Email sent successfully! Message ID:'', Text messageId] w3))))"

text \<open>
  The handler from the check of line 112 on, given the four values read from a parsed
  body: the 400, or the \<^verbatim>\<open>try\<close> with its \<^verbatim>\<open>catch\<close>.
\<close>

definition post_submit :: "req_body \<Rightarrow> world \<Rightarrow> response \<times> world" where
  "post_submit b w =
     (if falsy (name b) \<or> falsy (email b) \<or> falsy (prompt b)
      then (\<lparr>status = 400, body = MessageJson ''Missing required fields.''\<rparr>, w)
      else
        (case submit_try b w of
           (Inr res, w1) \<Rightarrow> (res, w1)
         | (Inl err, w1) \<Rightarrow>
             (\<lparr>status = 500,
               body = MessageJson
                 ''Failed to send message. Please check server logs for details (Error 500).''\<rparr>,
              console_error [Text ''Submission Error:'', Text (message err), Thrown err] w1)))"

text \<open>
  The whole handler \<^verbatim>\<open>app.post('/submit', ...)\<close>, from \<^verbatim>\<open>req.body\<close> as the parser
  left it. The body is \<open>None\<close> when \<^verbatim>\<open>req.body\<close> is \<^verbatim>\<open>undefined\<close>: the current
  parser leaves it so for a request that has no body or whose content type is not
  JSON. The destructuring of line 110 stands before the \<^verbatim>\<open>try\<close>, so the TypeError it
  throws on \<^verbatim>\<open>undefined\<close> escapes the handler: \<open>Inl\<close> is a handler that rejects
  without having answered, \<open>Inr\<close> the answer it sent.
\<close>

definition submit_handler :: "req_body option \<Rightarrow> world \<Rightarrow> (js_error + response) \<times> world" where
  "submit_handler req_body w =
     (case req_body of
        None \<Rightarrow>
          (Inl (TypeError
             ''Cannot destructure property 'name' of 'req.body' as it is undefined.''), w)
      | Some b \<Rightarrow> (case post_submit b w of (res, w1) \<Rightarrow> (Inr res, w1)))"

subsection \<open>\<^verbatim>\<open>GET /submissions\<close>\<close>

definition get_submissions :: "world \<Rightarrow> response \<times> world" where
  "get_submissions w =
     (case pool_query SelectOrderByDateDesc [] exec_select w of
        (Inr rows, w1) \<Rightarrow> (\<lparr>status = 200, body = RowsJson rows\<rparr>, w1)
      | (Inl err, w1) \<Rightarrow> (\<lparr>status = 500, body = ErrorJson (message err)\<rparr>, w1))"

subsection \<open>The static pages\<close>

text \<open>
  \<^verbatim>\<open>express.static\<close> on the folder \<^verbatim>\<open>frontend\<close> answers when the folder has the file
  and passes the request on otherwise; \<^verbatim>\<open>res.sendFile\<close> answers with the file or with
  the framework's 404. Paths are relative to the directory of the program.
\<close>

definition express_static :: "string \<Rightarrow> world \<Rightarrow> response option" where
  "express_static p w =
     (case files w (''frontend/'' @ p) of
        None \<Rightarrow> None
      | Some c \<Rightarrow> Some \<lparr>status = 200, body = FileContent c\<rparr>)"

definition sendFile :: "string \<Rightarrow> world \<Rightarrow> response" where
  "sendFile p w =
     (case files w p of
        None \<Rightarrow> \<lparr>status = 404, body = NotFound\<rparr>
      | Some c \<Rightarrow> \<lparr>status = 200, body = FileContent c\<rparr>)"

definition get_root :: "world \<Rightarrow> response \<times> world" where
  "get_root w =
     (case express_static ''index.html'' w of
        Some r \<Rightarrow> (r, w)
      | None \<Rightarrow> (sendFile ''frontend/index.html'' w, w))"

definition get_submissions_html :: "world \<Rightarrow> response \<times> world" where
  "get_submissions_html w =
     (case express_static ''submissions.html'' w of
        Some r \<Rightarrow> (r, w)
      | None \<Rightarrow> (sendFile ''submissions.html'' w, w))"

section \<open>Notions used in the statements\<close>

text \<open>A request passes the check of the handler when none of the three fields is falsy.\<close>

definition valid :: "req_body \<Rightarrow> bool" where
  "valid b = (\<not> falsy (name b) \<and> \<not> falsy (email b) \<and> \<not> falsy (prompt b))"

text \<open>The row a successful insert of a valid request adds in world \<open>w\<close>.\<close>

definition stored_row :: "req_body \<Rightarrow> world \<Rightarrow> submission" where
  "stored_row b w =
     \<lparr>row_id = next_id w, row_name = to_string (name b), row_email = to_string (email b),
      row_about = to_param (about b), row_prompt = to_string (prompt b),
      submission_date = now w\<rparr>"

definition ok_response :: response where
  "ok_response =
     \<lparr>status = 200, body = MessageJson ''Form submitted and email sent successfully!''\<rparr>"

definition failed_response :: response where
  "failed_response =
     \<lparr>status = 500,
      body = MessageJson
        ''Failed to send message. Please check server logs for details (Error 500).''\<rparr>"

text \<open>Rows in descending order of date.\<close>

definition newest_first :: "submission list \<Rightarrow> bool" where
  "newest_first rs = sorted_wrt (\<lambda>a b. submission_date b \<le> submission_date a) rs"

section \<open>Example requests and worlds\<close>

text \<open>
  A world in which every service answers: an empty table, a reachable database, a
  transport that accepts every message, and the index page on disk.
\<close>

definition example_world :: world where
  "example_world =
     \<lparr>table = Some [], next_id = 1, now = 1700000000, connect_error = None,
      query_error = (\<lambda>st ps. None), checked_out = 0,
      send_result = (\<lambda>m. Inr ''<1@mail>''), outbox = [], console = [],
      files = (\<lambda>p. if p = ''frontend/index.html'' then Some ''<h1>Portfolio</h1>'' else None),
      EMAIL_USER = Some ''me@gmail.com'',
      EMAIL_RECEIVER = Some ''owner@example.com''\<rparr>"

text \<open>The same world with the database unreachable, or with the transport refusing.\<close>

definition db_down_world :: world where
  "db_down_world = example_world\<lparr>connect_error := Some (Error ''connect ECONNREFUSED'')\<rparr>"

definition mail_down_world :: world where
  "mail_down_world = example_world\<lparr>send_result := (\<lambda>m. Inl (Error ''Invalid login''))\<rparr>"

text \<open>
  The same world with a database that rejects the \<^verbatim>\<open>CREATE TABLE\<close> statement and
  answers the others.
\<close>

definition create_rejected_world :: world where
  "create_rejected_world =
     example_world\<lparr>query_error :=
       (\<lambda>st ps. if st = CreateTableIfNotExists
                then Some (Error ''permission denied for schema public'') else None)\<rparr>"

definition example_row :: "nat \<Rightarrow> int \<Rightarrow> submission" where
  "example_row i d =
     \<lparr>row_id = i, row_name = ''Ada'', row_email = ''ada@x.com'', row_about = None,
      row_prompt = ''hi'', submission_date = d\<rparr>"

definition three_rows_world :: world where
  "three_rows_world =
     example_world\<lparr>table := Some [example_row 1 10, example_row 2 30, example_row 3 20],
       next_id := 4\<rparr>"

text \<open>The two requests of the specification's scenarios, and the mail of the first.\<close>

definition ada :: req_body where
  "ada = \<lparr>name = JStr ''Ada'', email = JStr ''ada@x.com'', about = JStr ''Hiring'',
          prompt = JStr (''Let's talk'' @ [CHR 0x0A] @ ''Thanks'')\<rparr>"

definition blank_name :: req_body where
  "blank_name = \<lparr>name = JStr [], email = JStr ''ada@x.com'', about = JUndefined,
                 prompt = JStr ''hi''\<rparr>"

definition ada_mail :: mail where
  "ada_mail =
     \<lparr>from_field = ''Ada <me@gmail.com>'', to_field = Some ''owner@example.com'',
      replyTo = JStr ''ada@x.com'', subject = ''New Portfolio Inquiry: Hiring from Ada'',
      html = html_template ''Ada'' ''ada@x.com'' ''Hiring'' ''Let's talk<br>Thanks''\<rparr>"

text \<open>A request without the optional field.\<close>

definition ada_no_about :: req_body where
  "ada_no_about = \<lparr>name = JStr ''Ada'', email = JStr ''ada@x.com'', about = JUndefined,
                   prompt = JStr ''hi''\<rparr>"

section \<open>The pool and the insert\<close>

lemma to_param_truthy: "\<not> falsy v \<Longrightarrow> to_param v = Some (to_string v)"
  by (cases v) auto

lemma release_after_connect: "client_release (w\<lparr>checked_out := Suc (checked_out w)\<rparr>) = w"
  by (simp add: client_release_def)

lemma pool_query_connect_error:
  "connect_error w = Some e \<Longrightarrow> pool_query st ps ex w = (Inl e, w)"
  by (simp add: pool_query_def pool_connect_def)

lemma pool_query_query_error:
  "connect_error w = None \<Longrightarrow> query_error w st ps = Some e \<Longrightarrow>
   pool_query st ps ex w = (Inl e, w)"
  by (simp add: pool_query_def pool_connect_def client_query_def release_after_connect)

lemma pool_query_run:
  "connect_error w = None \<Longrightarrow> query_error w st ps = None \<Longrightarrow>
   pool_query st ps ex w =
     (fst (ex (w\<lparr>checked_out := Suc (checked_out w)\<rparr>)),
      client_release (snd (ex (w\<lparr>checked_out := Suc (checked_out w)\<rparr>))))"
  by (simp add: pool_query_def pool_connect_def client_query_def split: prod.splits)

lemma exec_insert_no_table:
  "table w = None \<Longrightarrow>
   exec_insert (values b) w = (Inl (Error ''relation submissions does not exist''), w)"
  by (simp add: values_def)

lemma exec_insert_valid:
  "valid b \<Longrightarrow> table w = Some rows \<Longrightarrow>
   exec_insert (values b) w =
     (Inr (next_id w),
      w\<lparr>table := Some (rows @ [stored_row b w]), next_id := Suc (next_id w)\<rparr>)"
  by (simp add: values_def valid_def to_param_truthy stored_row_def)

lemma insert_submission_ok:
  assumes "valid b" "connect_error w = None"
    and "query_error w InsertReturningId (values b) = None" "table w = Some rows"
  shows "insert_submission b w =
     (Inr (next_id w),
      w\<lparr>table := Some (rows @ [stored_row b w]), next_id := Suc (next_id w)\<rparr>)"
  using assms
  by (simp add: insert_submission_def pool_query_run exec_insert_valid client_release_def
      stored_row_def)

lemma insert_submission_no_table:
  assumes "connect_error w = None" "query_error w InsertReturningId (values b) = None"
    and "table w = None"
  shows "insert_submission b w = (Inl (Error ''relation submissions does not exist''), w)"
  using assms
  by (simp add: insert_submission_def pool_query_run exec_insert_no_table release_after_connect)

text \<open>
  The insert of a valid request either is rejected and leaves the world as it was, or
  appends one row.
\<close>

lemma insert_submission_cases:
  assumes "valid b"
  shows "(\<exists>e. insert_submission b w = (Inl e, w)) \<or>
         (\<exists>rows. table w = Some rows \<and> insert_submission b w =
            (Inr (next_id w),
             w\<lparr>table := Some (rows @ [stored_row b w]), next_id := Suc (next_id w)\<rparr>))"
proof (cases "connect_error w")
  case (Some e)
  then show ?thesis by (simp add: insert_submission_def pool_query_connect_error)
next
  case None
  show ?thesis
  proof (cases "query_error w InsertReturningId (values b)")
    case (Some e)
    with None show ?thesis by (simp add: insert_submission_def pool_query_query_error)
  next
    case qn: None
    show ?thesis
    proof (cases "table w")
      case None
      with \<open>connect_error w = None\<close> qn show ?thesis
        by (simp add: insert_submission_no_table)
    next
      case (Some rows)
      with \<open>connect_error w = None\<close> qn assms show ?thesis
        by (simp add: insert_submission_ok)
    qed
  qed
qed

lemma insert_failed_world:
  assumes "valid b" "fst (insert_submission b w) = Inl e"
  shows "insert_submission b w = (Inl e, w)"
  using insert_submission_cases [OF assms(1), of w] assms(2) by auto

lemma insert_succeeded_world:
  assumes "valid b" "fst (insert_submission b w) = Inr i"
  shows "\<exists>rows. table w = Some rows \<and> insert_submission b w =
            (Inr (next_id w),
             w\<lparr>table := Some (rows @ [stored_row b w]), next_id := Suc (next_id w)\<rparr>)"
  using insert_submission_cases [OF assms(1), of w] assms(2) by auto

section \<open>The paths through \<^verbatim>\<open>POST /submit\<close>\<close>

lemma mailOptions_env:
  "EMAIL_USER w' = EMAIL_USER w \<Longrightarrow> EMAIL_RECEIVER w' = EMAIL_RECEIVER w \<Longrightarrow>
   mailOptions w' b = mailOptions w b"
  by (simp add: mailOptions_def split: sum.splits)

lemma post_submit_insert_failed:
  assumes "valid b" "fst (insert_submission b w) = Inl e"
  shows "post_submit b w =
     (failed_response,
      console_error [Text ''Submission Error:'', Text (message e), Thrown e] w)"
  using assms insert_failed_world [OF assms]
  by (simp add: post_submit_def valid_def submit_try_def failed_response_def)

lemma post_submit_compose_failed:
  assumes "valid b" "table w = Some rows" "fst (insert_submission b w) = Inr i"
    and "mailOptions w b = Inl e"
  shows "post_submit b w =
     (failed_response,
      w\<lparr>table := Some (rows @ [stored_row b w]), next_id := Suc (next_id w),
        console := console w @
          [Log [Text (''Saved submission ID: '' @ show_nat (next_id w))],
           LogError [Text ''Submission Error:'', Text (message e), Thrown e]]\<rparr>)"
proof -
  from insert_succeeded_world [OF assms(1,3)] assms(2)
  have ins: "insert_submission b w =
      (Inr (next_id w),
       w\<lparr>table := Some (rows @ [stored_row b w]), next_id := Suc (next_id w)\<rparr>)"
    by auto
  have mo: "mailOptions (console_log [Text (''Saved submission ID: '' @ show_nat (next_id w))]
     (w\<lparr>table := Some (rows @ [stored_row b w]), next_id := Suc (next_id w)\<rparr>)) b = Inl e"
    unfolding assms(4) [symmetric] by (rule mailOptions_env) (simp_all add: console_log_def)
  show ?thesis
    using assms(1) ins mo
    by (simp add: post_submit_def valid_def submit_try_def failed_response_def Let_def
        console_log_def console_error_def)
qed

lemma post_submit_send_failed:
  assumes "valid b" "table w = Some rows" "fst (insert_submission b w) = Inr i"
    and "mailOptions w b = Inr m" "send_result w m = Inl e"
  shows "post_submit b w =
     (failed_response,
      w\<lparr>table := Some (rows @ [stored_row b w]), next_id := Suc (next_id w),
        outbox := outbox w @ [m],
        console := console w @
          [Log [Text (''Saved submission ID: '' @ show_nat (next_id w))],
           LogError [Text ''Submission Error:'', Text (message e), Thrown e]]\<rparr>)"
proof -
  from insert_succeeded_world [OF assms(1,3)] assms(2)
  have ins: "insert_submission b w =
      (Inr (next_id w),
       w\<lparr>table := Some (rows @ [stored_row b w]), next_id := Suc (next_id w)\<rparr>)"
    by auto
  have mo: "mailOptions (console_log [Text (''Saved submission ID: '' @ show_nat (next_id w))]
     (w\<lparr>table := Some (rows @ [stored_row b w]), next_id := Suc (next_id w)\<rparr>)) b = Inr m"
    unfolding assms(4) [symmetric] by (rule mailOptions_env) (simp_all add: console_log_def)
  show ?thesis
    using assms(1,5) ins mo
    by (simp add: post_submit_def valid_def submit_try_def failed_response_def Let_def
        console_log_def console_error_def sendMail_def)
qed

lemma post_submit_sent:
  assumes "valid b" "table w = Some rows" "fst (insert_submission b w) = Inr i"
    and "mailOptions w b = Inr m" "send_result w m = Inr mid"
  shows "post_submit b w =
     (ok_response,
      w\<lparr>table := Some (rows @ [stored_row b w]), next_id := Suc (next_id w),
        outbox := outbox w @ [m],
        console := console w @
          [Log [Text (''Saved submission ID: '' @ show_nat (next_id w))],
           Log [Text ''Email sent successfully! Message ID:'', Text mid]]\<rparr>)"
proof -
  from insert_succeeded_world [OF assms(1,3)] assms(2)
  have ins: "insert_submission b w =
      (Inr (next_id w),
       w\<lparr>table := Some (rows @ [stored_row b w]), next_id := Suc (next_id w)\<rparr>)"
    by auto
  have mo: "mailOptions (console_log [Text (''Saved submission ID: '' @ show_nat (next_id w))]
     (w\<lparr>table := Some (rows @ [stored_row b w]), next_id := Suc (next_id w)\<rparr>)) b = Inr m"
    unfolding assms(4) [symmetric] by (rule mailOptions_env) (simp_all add: console_log_def)
  show ?thesis
    using assms(1,5) ins mo
    by (simp add: post_submit_def valid_def submit_try_def ok_response_def Let_def
        console_log_def sendMail_def)
qed

text \<open>
  Once the insert has succeeded and the mail is composed, the row is stored and the
  mail handed to the transport, whatever the transport answers.
\<close>

lemma post_submit_row_and_mail:
  assumes "valid b" "fst (insert_submission b w) = Inr i" "mailOptions w b = Inr m"
  shows "\<exists>rows. table w = Some rows \<and>
           table (snd (post_submit b w)) = Some (rows @ [stored_row b w]) \<and>
           outbox (snd (post_submit b w)) = outbox w @ [m]"
proof -
  from insert_succeeded_world [OF assms(1,2)] obtain rows where rows: "table w = Some rows"
    by blast
  show ?thesis
  proof (cases "send_result w m")
    case (Inl e)
    from post_submit_send_failed [OF assms(1) rows assms(2,3) Inl] rows show ?thesis by simp
  next
    case (Inr mid)
    from post_submit_sent [OF assms(1) rows assms(2,3) Inr] rows show ?thesis by simp
  qed
qed

text \<open>
  A prompt that is a number or a boolean passes the check of the handler; the row is
  stored, composing the mail throws, and the answer is the 500 of the \<^verbatim>\<open>catch\<close>.
\<close>

lemma post_submit_prompt_not_text:
  assumes "valid b" "prompt b = JNum n \<or> prompt b = JBool t"
    and "fst (insert_submission b w) = Inr i"
  shows "fst (post_submit b w) = failed_response \<and>
         outbox (snd (post_submit b w)) = outbox w \<and>
         (\<exists>rows. table w = Some rows \<and>
            table (snd (post_submit b w)) = Some (rows @ [stored_row b w]))"
proof -
  from insert_succeeded_world [OF assms(1,3)] obtain rows where rows: "table w = Some rows"
    by blast
  from assms(2) have "mailOptions w b = Inl (TypeError ''prompt.replace is not a function'')"
    by (auto simp: mailOptions_def)
  from post_submit_compose_failed [OF assms(1) rows assms(3) this] rows show ?thesis
    by simp
qed

section \<open>Facts about the examples\<close>

lemma valid_ada: "valid ada"
  by (simp add: valid_def ada_def)

lemma mailOptions_ada: "mailOptions example_world ada = Inr ada_mail"
  by (simp add: mailOptions_def ada_def example_world_def ada_mail_def env_string_def js_or_def
      replace_newlines_def)

lemma insert_ada:
  "insert_submission ada example_world =
     (Inr 1, example_world\<lparr>table := Some [stored_row ada example_world], next_id := 2\<rparr>)"
proof -
  have "insert_submission ada example_world =
     (Inr (next_id example_world),
      example_world\<lparr>table := Some ([] @ [stored_row ada example_world]),
        next_id := Suc (next_id example_world)\<rparr>)"
    by (rule insert_submission_ok [OF valid_ada]) (simp_all add: example_world_def)
  then show ?thesis by (simp add: example_world_def)
qed

lemma insert_ada_mail_down:
  "insert_submission ada mail_down_world =
     (Inr 1, mail_down_world\<lparr>table := Some [stored_row ada mail_down_world], next_id := 2\<rparr>)"
proof -
  have "insert_submission ada mail_down_world =
     (Inr (next_id mail_down_world),
      mail_down_world\<lparr>table := Some ([] @ [stored_row ada mail_down_world]),
        next_id := Suc (next_id mail_down_world)\<rparr>)"
    by (rule insert_submission_ok [OF valid_ada])
      (simp_all add: mail_down_world_def example_world_def)
  then show ?thesis by (simp add: mail_down_world_def example_world_def)
qed

lemma mailOptions_ada_mail_down: "mailOptions mail_down_world ada = Inr ada_mail"
  unfolding mailOptions_ada [symmetric]
  by (rule mailOptions_env) (simp_all add: mail_down_world_def)

section \<open>Creating a submission\<close>

text \<open>
  Claim C1. A request whose name and email pass the check and whose prompt is a
  non-empty text, handled while the insert and the send both succeed, is answered with
  200 and the body \<^verbatim>\<open>{message: "Form submitted and email sent successfully!"}\<close>; the
  table gains exactly one row, the row of the request, and the transport is called
  exactly once, with the composed mail.
\<close>

theorem valid_submission_succeeds:
  assumes "\<not> falsy (name b)" "\<not> falsy (email b)" "prompt b = JStr p" "p \<noteq> []"
    and "fst (insert_submission b w) = Inr i"
    and "mailOptions w b = Inr m" "send_result w m = Inr mid"
  shows "fst (post_submit b w)
           = \<lparr>status = 200,
              body = MessageJson ''Form submitted and email sent successfully!''\<rparr> \<and>
         (\<exists>rows. table w = Some rows \<and>
            table (snd (post_submit b w)) = Some (rows @ [stored_row b w])) \<and>
         outbox (snd (post_submit b w)) = outbox w @ [m]"
proof -
  have v: "valid b" using assms(1-4) by (simp add: valid_def)
  from insert_succeeded_world [OF v assms(5)] obtain rows where rows: "table w = Some rows"
    by blast
  from post_submit_sent [OF v rows assms(5,6,7)] rows show ?thesis
    by (simp add: ok_response_def)
qed

theorem valid_submission_succeeds_witness:
  "\<not> falsy (name ada) \<and> \<not> falsy (email ada) \<and>
   fst (insert_submission ada example_world) = Inr 1 \<and>
   send_result example_world ada_mail = Inr ''<1@mail>'' \<and>
   fst (post_submit ada example_world)
     = \<lparr>status = 200, body = MessageJson ''Form submitted and email sent successfully!''\<rparr> \<and>
   table (snd (post_submit ada example_world))
     = Some [\<lparr>row_id = 1, row_name = ''Ada'', row_email = ''ada@x.com'',
              row_about = Some ''Hiring'',
              row_prompt = ''Let's talk'' @ [CHR 0x0A] @ ''Thanks'',
              submission_date = 1700000000\<rparr>] \<and>
   outbox (snd (post_submit ada example_world)) = [ada_mail]"
proof -
  have h1: "\<not> falsy (name ada)" and h2: "\<not> falsy (email ada)"
    and h3: "prompt ada = JStr (''Let's talk'' @ [CHR 0x0A] @ ''Thanks'')"
    and h4: "''Let's talk'' @ [CHR 0x0A] @ ''Thanks'' \<noteq> []"
    by (simp_all add: ada_def)
  have h5: "fst (insert_submission ada example_world) = Inr 1"
    by (simp add: insert_ada)
  have h7: "send_result example_world ada_mail = Inr ''<1@mail>''"
    by (simp add: example_world_def)
  from valid_submission_succeeds [OF h1 h2 h3 h4 h5 mailOptions_ada h7] h1 h2 h5 h7
  show ?thesis
    by (simp add: example_world_def stored_row_def ada_def)
qed

text \<open>
  Claim C2. For a request that passes the check: when the insert is rejected, the
  answer is 500, the transport is not called and the table is as before; when the
  insert succeeds and the transport rejects the mail, the answer is 500 and the new
  row stays in the table.
\<close>

theorem submission_failure_paths:
  assumes "\<not> falsy (name b)" "\<not> falsy (email b)" "\<not> falsy (prompt b)"
  shows "(fst (insert_submission b w) = Inl e \<longrightarrow>
            status (fst (post_submit b w)) = 500 \<and>
            outbox (snd (post_submit b w)) = outbox w \<and>
            table (snd (post_submit b w)) = table w) \<and>
         (fst (insert_submission b w) = Inr i \<and> mailOptions w b = Inr m \<and>
          send_result w m = Inl e' \<longrightarrow>
            status (fst (post_submit b w)) = 500 \<and>
            (\<exists>rows. table w = Some rows \<and>
               table (snd (post_submit b w)) = Some (rows @ [stored_row b w])))"
proof -
  have v: "valid b" using assms by (simp add: valid_def)
  have first: "status (fst (post_submit b w)) = 500 \<and>
      outbox (snd (post_submit b w)) = outbox w \<and>
      table (snd (post_submit b w)) = table w"
    if "fst (insert_submission b w) = Inl e"
    using post_submit_insert_failed [OF v that]
    by (simp add: failed_response_def console_error_def)
  have second: "status (fst (post_submit b w)) = 500 \<and>
      (\<exists>rows. table w = Some rows \<and>
         table (snd (post_submit b w)) = Some (rows @ [stored_row b w]))"
    if ins: "fst (insert_submission b w) = Inr i" and mo: "mailOptions w b = Inr m"
      and rej: "send_result w m = Inl e'"
  proof -
    from insert_succeeded_world [OF v ins] obtain rows where rows: "table w = Some rows"
      by blast
    from post_submit_send_failed [OF v rows ins mo rej] rows show ?thesis
      by (simp add: failed_response_def)
  qed
  from first second show ?thesis by blast
qed

theorem submission_failure_paths_witness:
  "fst (insert_submission ada db_down_world) = Inl (Error ''connect ECONNREFUSED'') \<and>
   status (fst (post_submit ada db_down_world)) = 500 \<and>
   outbox (snd (post_submit ada db_down_world)) = [] \<and>
   table (snd (post_submit ada db_down_world)) = Some [] \<and>
   fst (insert_submission ada mail_down_world) = Inr 1 \<and>
   send_result mail_down_world ada_mail = Inl (Error ''Invalid login'') \<and>
   status (fst (post_submit ada mail_down_world)) = 500 \<and>
   table (snd (post_submit ada mail_down_world)) = Some [stored_row ada mail_down_world]"
proof -
  have h1: "\<not> falsy (name ada)" and h2: "\<not> falsy (email ada)" and h3: "\<not> falsy (prompt ada)"
    by (simp_all add: ada_def)
  have d: "fst (insert_submission ada db_down_world) = Inl (Error ''connect ECONNREFUSED'')"
    by (simp add: insert_submission_def pool_query_connect_error db_down_world_def)
  have i: "fst (insert_submission ada mail_down_world) = Inr 1"
    by (simp add: insert_ada_mail_down)
  have s: "send_result mail_down_world ada_mail = Inl (Error ''Invalid login'')"
    by (simp add: mail_down_world_def)
  have t0: "table db_down_world = Some []" "outbox db_down_world = []"
    "table mail_down_world = Some []"
    by (simp_all add: db_down_world_def mail_down_world_def example_world_def)
  from submission_failure_paths
         [OF h1 h2 h3, of db_down_world "Error ''connect ECONNREFUSED''"]
       submission_failure_paths
         [OF h1 h2 h3, of mail_down_world _ 1 ada_mail "Error ''Invalid login''"]
       d i mailOptions_ada_mail_down s t0
  show ?thesis by simp
qed

text \<open>
  A parsed body in which name, email or prompt is absent or empty (or any other falsy
  value) is answered with 400 and the body \<^verbatim>\<open>{message: "Missing required fields."}\<close>,
  and the world is left as it was: no row is inserted and the transport is not called.
\<close>

lemma parsed_body_missing_field:
  assumes "falsy (name b) \<or> falsy (email b) \<or> falsy (prompt b)"
  shows "post_submit b w
           = (\<lparr>status = 400, body = MessageJson ''Missing required fields.''\<rparr>, w)"
  using assms by (simp add: post_submit_def)

lemma submit_handler_parsed:
  "submit_handler (Some b) w = (Inr (fst (post_submit b w)), snd (post_submit b w))"
  by (simp add: submit_handler_def split: prod.splits)

lemma submit_handler_missing_field:
  assumes "falsy (name b) \<or> falsy (email b) \<or> falsy (prompt b)"
  shows "submit_handler (Some b) w
           = (Inr \<lparr>status = 400, body = MessageJson ''Missing required fields.''\<rparr>, w)"
  by (simp add: submit_handler_parsed parsed_body_missing_field [OF assms])

lemma blank_name_rejected:
  "submit_handler (Some blank_name) example_world
     = (Inr \<lparr>status = 400, body = MessageJson ''Missing required fields.''\<rparr>, example_world)"
proof -
  have "falsy (name blank_name) \<or> falsy (email blank_name) \<or> falsy (prompt blank_name)"
    by (simp add: blank_name_def)
  then show ?thesis by (rule submit_handler_missing_field)
qed

text \<open>
  Claim C3, at a request whose body was not parsed, so that all three fields are
  missing: the handler does not answer 400. Reading the properties of the undefined
  body throws before the check and before the \<^verbatim>\<open>try\<close>, the handler rejects with the
  TypeError and sends nothing; no row is inserted and the transport is not called.
\<close>

theorem unparsed_body_escapes_check:
  "submit_handler None example_world
     = (Inl (TypeError
          ''Cannot destructure property 'name' of 'req.body' as it is undefined.''),
        example_world) \<and>
   fst (submit_handler None example_world)
     \<noteq> Inr \<lparr>status = 400, body = MessageJson ''Missing required fields.''\<rparr>"
  by (simp add: submit_handler_def)

section \<open>Listing the submissions\<close>

lemma mset_insert_desc: "mset (insert_desc r xs) = add_mset r (mset xs)"
  by (induction xs) auto

lemma set_insert_desc: "set (insert_desc r xs) = insert r (set xs)"
  by (induction xs) auto

lemma newest_first_insert_desc:
  "newest_first xs \<Longrightarrow> newest_first (insert_desc r xs)"
  unfolding newest_first_def
  by (induction xs) (auto simp: set_insert_desc)

lemma mset_foldl_insert_desc:
  "mset (foldl (\<lambda>acc r. insert_desc r acc) acc rows) = mset acc + mset rows"
  by (induction rows arbitrary: acc) (auto simp: mset_insert_desc)

lemma newest_first_foldl_insert_desc:
  "newest_first acc \<Longrightarrow> newest_first (foldl (\<lambda>acc r. insert_desc r acc) acc rows)"
  by (induction rows arbitrary: acc) (auto simp: newest_first_insert_desc)

lemma mset_order_by_date_desc: "mset (order_by_date_desc rows) = mset rows"
  by (simp add: order_by_date_desc_def mset_foldl_insert_desc)

lemma newest_first_order_by_date_desc: "newest_first (order_by_date_desc rows)"
  unfolding order_by_date_desc_def
  by (rule newest_first_foldl_insert_desc) (simp add: newest_first_def)

lemma length_order_by_date_desc: "length (order_by_date_desc rows) = length rows"
  using mset_order_by_date_desc [of rows] by (metis size_mset)

lemma select_ok:
  assumes "connect_error w = None" "query_error w SelectOrderByDateDesc [] = None"
    and "table w = Some rows"
  shows "pool_query SelectOrderByDateDesc [] exec_select w = (Inr (order_by_date_desc rows), w)"
  using assms
  by (simp add: pool_query_run exec_select_def release_after_connect)

lemma select_no_table:
  assumes "connect_error w = None" "query_error w SelectOrderByDateDesc [] = None"
    and "table w = None"
  shows "pool_query SelectOrderByDateDesc [] exec_select w
           = (Inl (Error ''relation submissions does not exist''), w)"
  using assms
  by (simp add: pool_query_run exec_select_def release_after_connect)

text \<open>
  Claim C4. While the database answers, the list operation returns 200 with all the
  rows of the table, each as often as it is stored and none cut off, and a row never
  comes before a row of a later date.
\<close>

theorem list_returns_all_newest_first:
  assumes "connect_error w = None" "query_error w SelectOrderByDateDesc [] = None"
    and "table w = Some rows"
  shows "\<exists>rs. get_submissions w = (\<lparr>status = 200, body = RowsJson rs\<rparr>, w) \<and>
           mset rs = mset rows \<and> length rs = length rows \<and>
           (\<forall>i j. i < j \<and> j < length rs \<longrightarrow>
              submission_date (rs ! j) \<le> submission_date (rs ! i))"
proof -
  let ?rs = "order_by_date_desc rows"
  have "get_submissions w = (\<lparr>status = 200, body = RowsJson ?rs\<rparr>, w)"
    by (simp add: get_submissions_def select_ok [OF assms])
  moreover have "mset ?rs = mset rows" by (rule mset_order_by_date_desc)
  moreover have "length ?rs = length rows" by (rule length_order_by_date_desc)
  moreover have "\<forall>i j. i < j \<and> j < length ?rs \<longrightarrow>
      submission_date (?rs ! j) \<le> submission_date (?rs ! i)"
    using newest_first_order_by_date_desc [of rows]
    by (simp add: newest_first_def sorted_wrt_iff_nth_less)
  ultimately show ?thesis by blast
qed

theorem list_returns_all_newest_first_witness:
  "connect_error three_rows_world = None \<and>
   query_error three_rows_world SelectOrderByDateDesc [] = None \<and>
   table three_rows_world = Some [example_row 1 10, example_row 2 30, example_row 3 20] \<and>
   fst (get_submissions three_rows_world)
     = \<lparr>status = 200,
        body = RowsJson [example_row 2 30, example_row 3 20, example_row 1 10]\<rparr>"
proof -
  have h: "connect_error three_rows_world = None"
    "query_error three_rows_world SelectOrderByDateDesc [] = None"
    "table three_rows_world = Some [example_row 1 10, example_row 2 30, example_row 3 20]"
    by (simp_all add: three_rows_world_def example_world_def)
  from list_returns_all_newest_first [OF h]
  obtain rs where rs: "get_submissions three_rows_world
      = (\<lparr>status = 200, body = RowsJson rs\<rparr>, three_rows_world)"
    by blast
  have "get_submissions three_rows_world
      = (\<lparr>status = 200,
          body = RowsJson [example_row 2 30, example_row 3 20, example_row 1 10]\<rparr>,
         three_rows_world)"
    by (simp add: get_submissions_def select_ok [OF h] order_by_date_desc_def example_row_def)
  with rs h show ?thesis by simp
qed

text \<open>
  Claim C10. While the database answers and the table holds no row, the list operation
  returns 200 with the empty array.
\<close>

theorem empty_list_is_empty_array:
  assumes "connect_error w = None" "query_error w SelectOrderByDateDesc [] = None"
    and "table w = Some []"
  shows "get_submissions w = (\<lparr>status = 200, body = RowsJson []\<rparr>, w)"
  by (simp add: get_submissions_def select_ok [OF assms] order_by_date_desc_def)

theorem empty_list_is_empty_array_witness:
  "connect_error example_world = None \<and>
   query_error example_world SelectOrderByDateDesc [] = None \<and>
   table example_world = Some [] \<and>
   fst (get_submissions example_world) = \<lparr>status = 200, body = RowsJson []\<rparr>"
proof -
  have h: "connect_error example_world = None"
    "query_error example_world SelectOrderByDateDesc [] = None"
    "table example_world = Some []"
    by (simp_all add: example_world_def)
  from empty_list_is_empty_array [OF h] h show ?thesis by simp
qed

section \<open>What a failure tells the caller\<close>

text \<open>
  On \<^verbatim>\<open>POST /submit\<close> every rejection caught by the handler gives the same body, and
  the message of the error goes to the console.
\<close>

lemma post_submit_failure_is_generic:
  assumes "valid b" "status (fst (post_submit b w)) = 500"
  shows "fst (post_submit b w) = failed_response \<and>
         (\<exists>e. last (console (snd (post_submit b w)))
                 = LogError [Text ''Submission Error:'', Text (message e), Thrown e])"
  using assms
  by (auto simp: post_submit_def valid_def failed_response_def console_error_def
      submit_try_def Let_def sendMail_def console_log_def split: prod.splits sum.splits)

lemma get_submissions_rejected:
  assumes "fst (pool_query SelectOrderByDateDesc [] exec_select w) = Inl e"
  shows "fst (get_submissions w) = \<lparr>status = 500, body = ErrorJson (message e)\<rparr> \<and>
         console (snd (get_submissions w)) = console w"
  using assms
  by (auto simp: get_submissions_def pool_query_def pool_connect_def client_query_def
      exec_select_def client_release_def split: prod.splits sum.splits option.splits)

text \<open>
  Claim C5, at the list operation with the database unreachable: the body of the 500
  is \<^verbatim>\<open>{error: err.message}\<close>, the message of the rejection itself, and nothing is
  written to the console.
\<close>

theorem list_failure_exposes_error_message:
  "get_submissions db_down_world
     = (\<lparr>status = 500, body = ErrorJson ''connect ECONNREFUSED''\<rparr>, db_down_world) \<and>
   console (snd (get_submissions db_down_world)) = console db_down_world"
  by (simp add: get_submissions_def pool_query_connect_error db_down_world_def)

section \<open>Initialising the database\<close>

lemma initialize_try_connect_error:
  "connect_error w = Some e \<Longrightarrow> initialize_try w = (Inl e, w)"
  by (simp add: initialize_try_def pool_connect_def)

lemma initialize_try_query_error:
  "connect_error w = None \<Longrightarrow> query_error w CreateTableIfNotExists [] = Some e \<Longrightarrow>
   initialize_try w = (Inl e, w\<lparr>checked_out := Suc (checked_out w)\<rparr>)"
  by (simp add: initialize_try_def pool_connect_def client_query_def)

lemma initialize_try_ok:
  "connect_error w = None \<Longrightarrow> query_error w CreateTableIfNotExists [] = None \<Longrightarrow>
   initialize_try w =
     (Inr (), w\<lparr>table := Some (case table w of None \<Rightarrow> [] | Some rows \<Rightarrow> rows),
               console := console w @
                 [Log [Text ''Connected to PostgreSQL and Submissions table is ready.'']]\<rparr>)"
  by (cases "table w")
    (simp_all add: initialize_try_def pool_connect_def client_query_def exec_create_def
      client_release_def console_log_def)

lemma initialize_try_failed_cases:
  assumes "fst (initialize_try w) = Inl e"
  shows "initialize_try w = (Inl e, w) \<and> connect_error w = Some e \<or>
         initialize_try w = (Inl e, w\<lparr>checked_out := Suc (checked_out w)\<rparr>) \<and>
           connect_error w = None"
proof (cases "connect_error w")
  case (Some e')
  with assms show ?thesis by (simp add: initialize_try_connect_error)
next
  case None
  show ?thesis
  proof (cases "query_error w CreateTableIfNotExists []")
    case (Some e')
    with None assms show ?thesis by (simp add: initialize_try_query_error)
  next
    case qn: None
    with None assms show ?thesis by (simp add: initialize_try_ok)
  qed
qed

lemma initializeDatabase_resolves: "fst (initializeDatabase w) = Inr ()"
  by (simp add: initializeDatabase_def split: prod.splits sum.splits)

text \<open>The client goes back to the pool when the statement succeeds.\<close>

lemma initializeDatabase_releases_on_success:
  "fst (initialize_try w) = Inr u \<Longrightarrow>
   checked_out (snd (initializeDatabase w)) = checked_out w"
  by (auto simp: initializeDatabase_def initialize_try_def pool_connect_def client_query_def
      exec_create_def client_release_def console_log_def
      split: prod.splits sum.splits option.splits)

text \<open>It does not when the statement is rejected, whatever the world.\<close>

lemma initializeDatabase_keeps_client_on_rejection:
  "connect_error w = None \<Longrightarrow> query_error w CreateTableIfNotExists [] = Some e \<Longrightarrow>
   checked_out (snd (initializeDatabase w)) = Suc (checked_out w)"
  by (simp add: initializeDatabase_def initialize_try_query_error console_error_def)

text \<open>
  Claim C7, at \<^verbatim>\<open>initializeDatabase\<close> with a database that accepts the connection and
  rejects the \<^verbatim>\<open>CREATE TABLE\<close> statement: the \<^verbatim>\<open>try\<close> is left before
  \<^verbatim>\<open>client.release()\<close>, and the client taken from the pool is never given back.
\<close>

theorem rejected_create_keeps_client:
  "fst (initialize_try create_rejected_world)
     = Inl (Error ''permission denied for schema public'') \<and>
   checked_out create_rejected_world = 0 \<and>
   checked_out (snd (initializeDatabase create_rejected_world)) = 1"
  by (simp add: initializeDatabase_def initialize_try_query_error create_rejected_world_def
      example_world_def console_error_def)

section \<open>The notification mail\<close>

lemma replace_newlines_append:
  "replace_newlines (u @ v) = replace_newlines u @ replace_newlines v"
  by (simp add: replace_newlines_def)

lemma replace_newlines_line_feed: "replace_newlines [CHR 0x0A] = ''<br>''"
  by (simp add: replace_newlines_def)

lemma replace_newlines_no_line_feed: "CHR 0x0A \<notin> set (replace_newlines s)"
  by (induction s) (auto simp: replace_newlines_def)

lemma replace_newlines_unchanged: "CHR 0x0A \<notin> set s \<Longrightarrow> replace_newlines s = s"
  by (induction s) (auto simp: replace_newlines_def)

lemma replace_newlines_split:
  "replace_newlines (u @ [CHR 0x0A] @ v) = replace_newlines u @ ''<br>'' @ replace_newlines v"
  by (simp only: replace_newlines_append replace_newlines_line_feed)

lemma html_template_has_name: "sublist n (html_template n e a d)"
proof -
  have "html_template n e a d =
      ([CHR 0x0A] @ indent 8 @ ''<h2>New Contact Form Submission</h2>'' @
       [CHR 0x0A] @ indent 8 @ ''<p><strong>Name:</strong> '') @ n @
      (''</p>'' @
       [CHR 0x0A] @ indent 8 @ ''<p><strong>Email:</strong> '' @ e @ ''</p>'' @
       [CHR 0x0A] @ indent 8 @ ''<p><strong>Subject (About):</strong> '' @ a @ ''</p>'' @
       [CHR 0x0A] @ indent 8 @ ''<h3>Details:</h3>'' @
       [CHR 0x0A] @ indent 8 @ ''<p>'' @ d @ ''</p>'' @
       [CHR 0x0A] @ indent 6)"
    by (simp add: html_template_def)
  then show ?thesis by (simp only: sublist_appendI)
qed

lemma html_template_has_email: "sublist e (html_template n e a d)"
proof -
  have "html_template n e a d =
      ([CHR 0x0A] @ indent 8 @ ''<h2>New Contact Form Submission</h2>'' @
       [CHR 0x0A] @ indent 8 @ ''<p><strong>Name:</strong> '' @ n @ ''</p>'' @
       [CHR 0x0A] @ indent 8 @ ''<p><strong>Email:</strong> '') @ e @
      (''</p>'' @
       [CHR 0x0A] @ indent 8 @ ''<p><strong>Subject (About):</strong> '' @ a @ ''</p>'' @
       [CHR 0x0A] @ indent 8 @ ''<h3>Details:</h3>'' @
       [CHR 0x0A] @ indent 8 @ ''<p>'' @ d @ ''</p>'' @
       [CHR 0x0A] @ indent 6)"
    by (simp add: html_template_def)
  then show ?thesis by (simp only: sublist_appendI)
qed

lemma html_template_has_about_line:
  "sublist (''<p><strong>Subject (About):</strong> '' @ a @ ''</p>'') (html_template n e a d)"
proof -
  have "html_template n e a d =
      ([CHR 0x0A] @ indent 8 @ ''<h2>New Contact Form Submission</h2>'' @
       [CHR 0x0A] @ indent 8 @ ''<p><strong>Name:</strong> '' @ n @ ''</p>'' @
       [CHR 0x0A] @ indent 8 @ ''<p><strong>Email:</strong> '' @ e @ ''</p>'' @
       [CHR 0x0A] @ indent 8) @
      (''<p><strong>Subject (About):</strong> '' @ a @ ''</p>'') @
      ([CHR 0x0A] @ indent 8 @ ''<h3>Details:</h3>'' @
       [CHR 0x0A] @ indent 8 @ ''<p>'' @ d @ ''</p>'' @
       [CHR 0x0A] @ indent 6)"
    by (simp add: html_template_def)
  then show ?thesis by (simp only: sublist_appendI)
qed

lemma html_template_has_about: "sublist a (html_template n e a d)"
proof -
  have "sublist a (''<p><strong>Subject (About):</strong> '' @ a @ ''</p>'')"
    by (rule sublist_appendI)
  then show ?thesis
    using html_template_has_about_line [of a n e d] sublist_order.order_trans by blast
qed

lemma html_template_has_details: "sublist d (html_template n e a d)"
proof -
  have "html_template n e a d =
      ([CHR 0x0A] @ indent 8 @ ''<h2>New Contact Form Submission</h2>'' @
       [CHR 0x0A] @ indent 8 @ ''<p><strong>Name:</strong> '' @ n @ ''</p>'' @
       [CHR 0x0A] @ indent 8 @ ''<p><strong>Email:</strong> '' @ e @ ''</p>'' @
       [CHR 0x0A] @ indent 8 @ ''<p><strong>Subject (About):</strong> '' @ a @ ''</p>'' @
       [CHR 0x0A] @ indent 8 @ ''<h3>Details:</h3>'' @
       [CHR 0x0A] @ indent 8 @ ''<p>'') @ d @
      (''</p>'' @ [CHR 0x0A] @ indent 6)"
    by (simp add: html_template_def)
  then show ?thesis by (simp only: sublist_appendI)
qed

lemma mailOptions_text:
  "prompt b = JStr p \<Longrightarrow>
   mailOptions w b =
     Inr \<lparr>from_field = to_string (name b) @ '' <'' @ env_string (EMAIL_USER w) @ ''>'',
          to_field = EMAIL_RECEIVER w,
          replyTo = email b,
          subject = ''New Portfolio Inquiry: '' @ to_string (js_or (about b) (JStr ''General''))
                      @ '' from '' @ to_string (name b),
          html = html_template (to_string (name b)) (to_string (email b))
                   (to_string (js_or (about b) (JStr ''Not specified'')))
                   (replace_newlines p)\<rparr>"
  by (simp add: mailOptions_def)

lemma about_text_in_html:
  "about b = JStr a \<Longrightarrow>
   sublist a (html_template n e (to_string (js_or (about b) (JStr ''Not specified''))) d)"
  by (cases "a = []") (simp_all add: js_or_def html_template_has_about)

text \<open>
  Claim C6. For a request whose name and email pass the check and whose prompt is a
  non-empty text, the mail is composed; it goes to the address in
  \<^verbatim>\<open>EMAIL_RECEIVER\<close>, whatever the request; its reply-to is the email of the request;
  its sender field is the name of the request followed by the sending address in
  angle brackets; its HTML body contains the name, the email, the about text when one
  was given, and the prompt with every line feed replaced by \<^verbatim>\<open><br>\<close>, so that no
  line feed of the prompt is left; and this is the mail handed to the transport once
  the insert has succeeded.
\<close>

theorem notification_mail_contents:
  assumes "\<not> falsy (name b)" "\<not> falsy (email b)" "prompt b = JStr p" "p \<noteq> []"
  shows "\<exists>m. mailOptions w b = Inr m \<and>
           to_field m = EMAIL_RECEIVER w \<and>
           replyTo m = email b \<and>
           from_field m = to_string (name b) @ '' <'' @ env_string (EMAIL_USER w) @ ''>'' \<and>
           sublist (to_string (name b)) (html m) \<and>
           sublist (to_string (email b)) (html m) \<and>
           (\<forall>a. about b = JStr a \<longrightarrow> sublist a (html m)) \<and>
           sublist (replace_newlines p) (html m) \<and>
           CHR 0x0A \<notin> set (replace_newlines p) \<and>
           (\<forall>u v. p = u @ [CHR 0x0A] @ v \<longrightarrow>
              replace_newlines p = replace_newlines u @ ''<br>'' @ replace_newlines v) \<and>
           (\<forall>i. fst (insert_submission b w) = Inr i \<longrightarrow>
              outbox (snd (post_submit b w)) = outbox w @ [m])"
proof -
  let ?m = "\<lparr>from_field = to_string (name b) @ '' <'' @ env_string (EMAIL_USER w) @ ''>'',
          to_field = EMAIL_RECEIVER w,
          replyTo = email b,
          subject = ''New Portfolio Inquiry: '' @ to_string (js_or (about b) (JStr ''General''))
                      @ '' from '' @ to_string (name b),
          html = html_template (to_string (name b)) (to_string (email b))
                   (to_string (js_or (about b) (JStr ''Not specified'')))
                   (replace_newlines p)\<rparr>"
  have v: "valid b" using assms by (simp add: valid_def)
  have mo: "mailOptions w b = Inr ?m" by (rule mailOptions_text [OF assms(3)])
  have c1: "to_field ?m = EMAIL_RECEIVER w" "replyTo ?m = email b"
    "from_field ?m = to_string (name b) @ '' <'' @ env_string (EMAIL_USER w) @ ''>''"
    by simp_all
  have c2: "sublist (to_string (name b)) (html ?m)" "sublist (to_string (email b)) (html ?m)"
    "sublist (replace_newlines p) (html ?m)"
    by (simp_all add: html_template_has_name html_template_has_email html_template_has_details)
  have c3: "\<forall>a. about b = JStr a \<longrightarrow> sublist a (html ?m)"
  proof (intro allI impI)
    fix a
    assume "about b = JStr a"
    from about_text_in_html [OF this] show "sublist a (html ?m)" by simp
  qed
  have c4: "CHR 0x0A \<notin> set (replace_newlines p)" by (rule replace_newlines_no_line_feed)
  have c5: "\<forall>u v. p = u @ [CHR 0x0A] @ v \<longrightarrow>
      replace_newlines p = replace_newlines u @ ''<br>'' @ replace_newlines v"
    using replace_newlines_split by blast
  have c6: "\<forall>i. fst (insert_submission b w) = Inr i \<longrightarrow>
      outbox (snd (post_submit b w)) = outbox w @ [?m]"
    using post_submit_row_and_mail [OF v _ mo] by blast
  show ?thesis
    apply (rule exI [of _ ?m])
    using mo c1 c2 c3 c4 c5 c6 by blast
qed

theorem notification_mail_contents_witness:
  "\<not> falsy (name ada) \<and> \<not> falsy (email ada) \<and>
   mailOptions example_world ada = Inr ada_mail \<and>
   to_field ada_mail = Some ''owner@example.com'' \<and>
   replyTo ada_mail = JStr ''ada@x.com'' \<and>
   from_field ada_mail = ''Ada <me@gmail.com>'' \<and>
   sublist ''Hiring'' (html ada_mail) \<and>
   sublist ''Let's talk<br>Thanks'' (html ada_mail) \<and>
   fst (insert_submission ada example_world) = Inr 1 \<and>
   outbox (snd (post_submit ada example_world)) = [ada_mail]"
proof -
  have h1: "\<not> falsy (name ada)" and h2: "\<not> falsy (email ada)"
    and h3: "prompt ada = JStr (''Let's talk'' @ [CHR 0x0A] @ ''Thanks'')"
    and h4: "''Let's talk'' @ [CHR 0x0A] @ ''Thanks'' \<noteq> []"
    and h5: "about ada = JStr ''Hiring''"
    by (simp_all add: ada_def)
  have r: "replace_newlines (''Let's talk'' @ [CHR 0x0A] @ ''Thanks'') = ''Let's talk<br>Thanks''"
    by (simp add: replace_newlines_def)
  have i: "fst (insert_submission ada example_world) = Inr 1" by (simp add: insert_ada)
  have o: "outbox example_world = []" by (simp add: example_world_def)
  from notification_mail_contents [OF h1 h2 h3 h4, of example_world]
  obtain m where m: "mailOptions example_world ada = Inr m"
    and c: "to_field m = EMAIL_RECEIVER example_world" "replyTo m = email ada"
      "from_field m = to_string (name ada) @ '' <'' @ env_string (EMAIL_USER example_world) @ ''>''"
      "\<forall>a. about ada = JStr a \<longrightarrow> sublist a (html m)"
      "sublist (replace_newlines (''Let's talk'' @ [CHR 0x0A] @ ''Thanks'')) (html m)"
      "\<forall>i. fst (insert_submission ada example_world) = Inr i \<longrightarrow>
         outbox (snd (post_submit ada example_world)) = outbox example_world @ [m]"
    by blast
  from m have eq: "m = ada_mail" by (simp add: mailOptions_ada)
  from c(4) h5 have a: "sublist ''Hiring'' (html m)" by blast
  from c(6) i have ob: "outbox (snd (post_submit ada example_world)) = outbox example_world @ [m]"
    by blast
  from c(1,2,3) a c(5) ob show ?thesis
    unfolding eq r
    using h1 h2 i mailOptions_ada o
    by (simp add: example_world_def ada_def env_string_def)
qed

text \<open>
  Claim C9. For a request that passes the check, with a text prompt and with about
  absent, null or the empty string, once the insert has succeeded: the subject of the
  mail handed to the transport reads \<^verbatim>\<open>General\<close> in the place of about and its body
  shows \<^verbatim>\<open>Not specified\<close>, while the stored row holds about as it was supplied, NULL
  for an absent or null value and the empty string for the empty string.
\<close>

theorem absent_about_defaults:
  assumes "\<not> falsy (name b)" "\<not> falsy (email b)" "prompt b = JStr p" "p \<noteq> []"
    and "about b = JUndefined \<or> about b = JNull \<or> about b = JStr []"
    and "fst (insert_submission b w) = Inr i"
  shows "\<exists>m rows. mailOptions w b = Inr m \<and>
           outbox (snd (post_submit b w)) = outbox w @ [m] \<and>
           subject m = ''New Portfolio Inquiry: General from '' @ to_string (name b) \<and>
           sublist ''<p><strong>Subject (About):</strong> Not specified</p>'' (html m) \<and>
           table w = Some rows \<and>
           table (snd (post_submit b w)) = Some (rows @ [stored_row b w]) \<and>
           row_about (stored_row b w) = (if about b = JStr [] then Some [] else None)"
proof -
  let ?m = "\<lparr>from_field = to_string (name b) @ '' <'' @ env_string (EMAIL_USER w) @ ''>'',
          to_field = EMAIL_RECEIVER w,
          replyTo = email b,
          subject = ''New Portfolio Inquiry: '' @ to_string (js_or (about b) (JStr ''General''))
                      @ '' from '' @ to_string (name b),
          html = html_template (to_string (name b)) (to_string (email b))
                   (to_string (js_or (about b) (JStr ''Not specified'')))
                   (replace_newlines p)\<rparr>"
  have v: "valid b" using assms(1-4) by (simp add: valid_def)
  have mo: "mailOptions w b = Inr ?m" by (rule mailOptions_text [OF assms(3)])
  have f: "falsy (about b)" using assms(5) by auto
  from post_submit_row_and_mail [OF v assms(6) mo] obtain rows
    where rows: "table w = Some rows"
      "table (snd (post_submit b w)) = Some (rows @ [stored_row b w])"
      "outbox (snd (post_submit b w)) = outbox w @ [?m]"
    by blast
  have s: "subject ?m = ''New Portfolio Inquiry: General from '' @ to_string (name b)"
    using f by (simp add: js_or_def)
  have "sublist (''<p><strong>Subject (About):</strong> '' @ ''Not specified'' @ ''</p>'')
          (html_template (to_string (name b)) (to_string (email b)) ''Not specified''
             (replace_newlines p))"
    by (rule html_template_has_about_line)
  then have h: "sublist ''<p><strong>Subject (About):</strong> Not specified</p>'' (html ?m)"
    using f by (simp add: js_or_def)
  have a: "row_about (stored_row b w) = (if about b = JStr [] then Some [] else None)"
    using assms(5) by (auto simp: stored_row_def)
  show ?thesis
    apply (rule exI [of _ ?m])
    apply (rule exI [of _ rows])
    using mo rows s h a by blast
qed

theorem absent_about_defaults_witness:
  "\<not> falsy (name ada_no_about) \<and> \<not> falsy (email ada_no_about) \<and>
   prompt ada_no_about = JStr ''hi'' \<and> about ada_no_about = JUndefined \<and>
   fst (insert_submission ada_no_about example_world) = Inr 1 \<and>
   map subject (outbox (snd (post_submit ada_no_about example_world)))
     = [''New Portfolio Inquiry: General from Ada''] \<and>
   table (snd (post_submit ada_no_about example_world))
     = Some [\<lparr>row_id = 1, row_name = ''Ada'', row_email = ''ada@x.com'', row_about = None,
              row_prompt = ''hi'', submission_date = 1700000000\<rparr>]"
proof -
  have h1: "\<not> falsy (name ada_no_about)" and h2: "\<not> falsy (email ada_no_about)"
    and h3: "prompt ada_no_about = JStr ''hi''" and h4: "''hi'' \<noteq> []"
    and h5: "about ada_no_about = JUndefined"
    by (simp_all add: ada_no_about_def)
  from h5 have h5': "about ada_no_about = JUndefined \<or> about ada_no_about = JNull \<or>
      about ada_no_about = JStr []"
    by simp
  have v: "valid ada_no_about" using h1 h2 h3 by (simp add: valid_def)
  have "insert_submission ada_no_about example_world =
     (Inr (next_id example_world),
      example_world\<lparr>table := Some ([] @ [stored_row ada_no_about example_world]),
        next_id := Suc (next_id example_world)\<rparr>)"
    by (rule insert_submission_ok [OF v]) (simp_all add: example_world_def)
  then have i: "fst (insert_submission ada_no_about example_world) = Inr 1"
    by (simp add: example_world_def)
  have t: "table example_world = Some []" "outbox example_world = []"
    by (simp_all add: example_world_def)
  from absent_about_defaults [OF h1 h2 h3 h4 h5' i] t h5
  obtain m where
    "outbox (snd (post_submit ada_no_about example_world)) = [m]"
    "subject m = ''New Portfolio Inquiry: General from '' @ to_string (name ada_no_about)"
    "table (snd (post_submit ada_no_about example_world))
       = Some [stored_row ada_no_about example_world]"
    "row_about (stored_row ada_no_about example_world) = None"
    by auto
  with h1 h2 h3 h5 i show ?thesis
    by (simp add: ada_no_about_def stored_row_def example_world_def)
qed

section \<open>After a failed initialisation\<close>

lemma insert_rejected_without_store:
  assumes "connect_error w \<noteq> None \<or> table w = None"
  shows "\<exists>e. fst (insert_submission b w) = Inl e"
proof (cases "connect_error w")
  case (Some e)
  then show ?thesis by (simp add: insert_submission_def pool_query_connect_error)
next
  case None
  with assms have t: "table w = None" by simp
  show ?thesis
  proof (cases "query_error w InsertReturningId (values b)")
    case (Some e)
    with None show ?thesis by (simp add: insert_submission_def pool_query_query_error)
  next
    case qn: None
    from insert_submission_no_table [OF None qn t] show ?thesis by simp
  qed
qed

lemma post_submit_fails_without_store:
  assumes "connect_error w \<noteq> None \<or> table w = None" "valid b"
  shows "status (fst (post_submit b w)) = 500"
proof -
  from insert_rejected_without_store [OF assms(1)]
  obtain e where "fst (insert_submission b w) = Inl e" by blast
  from post_submit_insert_failed [OF assms(2) this] show ?thesis
    by (simp add: failed_response_def)
qed

lemma get_submissions_fails_without_store:
  assumes "connect_error w \<noteq> None \<or> table w = None"
  shows "status (fst (get_submissions w)) = 500"
proof (cases "connect_error w")
  case (Some e)
  then show ?thesis by (simp add: get_submissions_def pool_query_connect_error)
next
  case None
  with assms have t: "table w = None" by simp
  show ?thesis
  proof (cases "query_error w SelectOrderByDateDesc []")
    case (Some e)
    with None show ?thesis by (simp add: get_submissions_def pool_query_query_error)
  next
    case qn: None
    from select_no_table [OF None qn t] show ?thesis by (simp add: get_submissions_def)
  qed
qed

text \<open>
  A failed initialisation changes the console, and the count of clients when the
  statement was rejected; the database, the files and the answers of the services are
  as before.
\<close>

lemma initializeDatabase_failed_world:
  assumes "fst (initialize_try w) = Inl e"
  shows "console (snd (initializeDatabase w)) = console w @
           [LogError [Text ''Error connecting to or initializing PostgreSQL:'',
                      Text (message e)]] \<and>
         table (snd (initializeDatabase w)) = table w \<and>
         connect_error (snd (initializeDatabase w)) = connect_error w \<and>
         query_error (snd (initializeDatabase w)) = query_error w \<and>
         files (snd (initializeDatabase w)) = files w"
  using initialize_try_failed_cases [OF assms]
  by (auto simp: initializeDatabase_def console_error_def)

lemma get_root_files: "files w' = files w \<Longrightarrow> fst (get_root w') = fst (get_root w)"
  by (simp add: get_root_def express_static_def sendFile_def split: option.splits)

lemma get_submissions_html_files:
  "files w' = files w \<Longrightarrow> fst (get_submissions_html w') = fst (get_submissions_html w)"
  by (simp add: get_submissions_html_def express_static_def sendFile_def split: option.splits)

lemma get_root_index:
  "files w ''frontend/index.html'' = Some c \<Longrightarrow>
   fst (get_root w) = \<lparr>status = 200, body = FileContent c\<rparr>"
  by (simp add: get_root_def express_static_def)

text \<open>
  Claim C8, as amended. When the initialisation fails, the function still resolves,
  the failure is written to the console and the table is as it was. The static pages
  are answered as without the failure, the index page with 200 when its file exists.
  The list operation and every create request that passes the check answer 500 in the
  world the initialisation leaves behind when the database is unreachable there or
  the table does not exist.
\<close>

theorem failed_startup_is_swallowed:
  assumes "fst (initialize_try w) = Inl e"
  shows "fst (initializeDatabase w) = Inr () \<and>
         console (snd (initializeDatabase w)) = console w @
           [LogError [Text ''Error connecting to or initializing PostgreSQL:'',
                      Text (message e)]] \<and>
         table (snd (initializeDatabase w)) = table w \<and>
         fst (get_root (snd (initializeDatabase w))) = fst (get_root w) \<and>
         fst (get_submissions_html (snd (initializeDatabase w)))
           = fst (get_submissions_html w) \<and>
         (\<forall>c. files w ''frontend/index.html'' = Some c \<longrightarrow>
            fst (get_root (snd (initializeDatabase w)))
              = \<lparr>status = 200, body = FileContent c\<rparr>) \<and>
         (connect_error w \<noteq> None \<or> table w = None \<longrightarrow>
            status (fst (get_submissions (snd (initializeDatabase w)))) = 500 \<and>
            (\<forall>b. valid b \<longrightarrow>
               status (fst (post_submit b (snd (initializeDatabase w)))) = 500))"
proof -
  let ?w = "snd (initializeDatabase w)"
  note after = initializeDatabase_failed_world [OF assms]
  have a: "fst (initializeDatabase w) = Inr ()" by (rule initializeDatabase_resolves)
  from after have fs: "files ?w = files w" by blast
  have b: "fst (get_root ?w) = fst (get_root w)"
    "fst (get_submissions_html ?w) = fst (get_submissions_html w)"
    by (rule get_root_files [OF fs], rule get_submissions_html_files [OF fs])
  have c: "\<forall>c. files w ''frontend/index.html'' = Some c \<longrightarrow>
      fst (get_root ?w) = \<lparr>status = 200, body = FileContent c\<rparr>"
    unfolding b(1) by (simp add: get_root_index)
  have d: "status (fst (get_submissions ?w)) = 500 \<and>
      (\<forall>b. valid b \<longrightarrow> status (fst (post_submit b ?w)) = 500)"
    if "connect_error w \<noteq> None \<or> table w = None"
  proof -
    from that after have "connect_error ?w \<noteq> None \<or> table ?w = None" by simp
    then show ?thesis
      using get_submissions_fails_without_store post_submit_fails_without_store by blast
  qed
  from a after b c d show ?thesis by blast
qed

theorem failed_startup_is_swallowed_witness:
  "fst (initialize_try db_down_world) = Inl (Error ''connect ECONNREFUSED'') \<and>
   connect_error db_down_world \<noteq> None \<and> valid ada \<and>
   files db_down_world ''frontend/index.html'' = Some ''<h1>Portfolio</h1>'' \<and>
   fst (initializeDatabase db_down_world) = Inr () \<and>
   console (snd (initializeDatabase db_down_world))
     = [LogError [Text ''Error connecting to or initializing PostgreSQL:'',
                  Text ''connect ECONNREFUSED'']] \<and>
   fst (get_root (snd (initializeDatabase db_down_world)))
     = \<lparr>status = 200, body = FileContent ''<h1>Portfolio</h1>''\<rparr> \<and>
   status (fst (get_submissions (snd (initializeDatabase db_down_world)))) = 500 \<and>
   status (fst (post_submit ada (snd (initializeDatabase db_down_world)))) = 500"
proof -
  have h: "fst (initialize_try db_down_world) = Inl (Error ''connect ECONNREFUSED'')"
    by (simp add: initialize_try_connect_error db_down_world_def)
  have c: "connect_error db_down_world \<noteq> None"
    and f: "files db_down_world ''frontend/index.html'' = Some ''<h1>Portfolio</h1>''"
    and l: "console db_down_world = []"
    by (simp_all add: db_down_world_def example_world_def)
  from failed_startup_is_swallowed [OF h] c f l valid_ada h get_root_index [OF f]
  show ?thesis
    by simp
qed

text \<open>
  The claim as it was stated fails where the table exists already and the database
  answers the later statements: after an initialisation that failed at the
  \<^verbatim>\<open>CREATE TABLE\<close> statement, and after one that failed because the database was not
  yet reachable at startup, the list operation and a create request answer 200.
\<close>

theorem failed_startup_then_storage_succeeds:
  "fst (initialize_try create_rejected_world)
     = Inl (Error ''permission denied for schema public'') \<and>
   status (fst (get_submissions (snd (initializeDatabase create_rejected_world)))) = 200 \<and>
   status (fst (post_submit ada (snd (initializeDatabase create_rejected_world)))) = 200 \<and>
   fst (initialize_try db_down_world) = Inl (Error ''connect ECONNREFUSED'') \<and>
   status (fst (get_submissions
     ((snd (initializeDatabase db_down_world))\<lparr>connect_error := None\<rparr>))) = 200 \<and>
   status (fst (post_submit ada
     ((snd (initializeDatabase db_down_world))\<lparr>connect_error := None\<rparr>))) = 200"
proof -
  let ?w1 = "snd (initializeDatabase create_rejected_world)"
  let ?w2 = "(snd (initializeDatabase db_down_world))\<lparr>connect_error := None\<rparr>"
  have i1: "initialize_try create_rejected_world
      = (Inl (Error ''permission denied for schema public''),
         create_rejected_world\<lparr>checked_out := Suc (checked_out create_rejected_world)\<rparr>)"
    by (rule initialize_try_query_error) (simp_all add: create_rejected_world_def example_world_def)
  have i2: "initialize_try db_down_world = (Inl (Error ''connect ECONNREFUSED''), db_down_world)"
    by (rule initialize_try_connect_error) (simp add: db_down_world_def)
  have e1: "?w1 = console_error
      [Text ''Error connecting to or initializing PostgreSQL:'',
       Text ''permission denied for schema public'']
      (create_rejected_world\<lparr>checked_out := Suc (checked_out create_rejected_world)\<rparr>)"
    unfolding initializeDatabase_def i1 by simp
  have e2: "?w2 = (console_error
      [Text ''Error connecting to or initializing PostgreSQL:'', Text ''connect ECONNREFUSED'']
      db_down_world)\<lparr>connect_error := None\<rparr>"
    unfolding initializeDatabase_def i2 by simp
  have w1: "connect_error ?w1 = None" "table ?w1 = Some []"
    "query_error ?w1 SelectOrderByDateDesc [] = None"
    "query_error ?w1 InsertReturningId (values ada) = None"
    "send_result ?w1 ada_mail = Inr ''<1@mail>''"
    "EMAIL_USER ?w1 = EMAIL_USER example_world"
    "EMAIL_RECEIVER ?w1 = EMAIL_RECEIVER example_world"
    unfolding e1
    by (simp_all add: console_error_def create_rejected_world_def example_world_def)
  have w2: "connect_error ?w2 = None" "table ?w2 = Some []"
    "query_error ?w2 SelectOrderByDateDesc [] = None"
    "query_error ?w2 InsertReturningId (values ada) = None"
    "send_result ?w2 ada_mail = Inr ''<1@mail>''"
    "EMAIL_USER ?w2 = EMAIL_USER example_world"
    "EMAIL_RECEIVER ?w2 = EMAIL_RECEIVER example_world"
    unfolding e2
    by (simp_all add: console_error_def db_down_world_def example_world_def)
  have g1: "status (fst (get_submissions ?w1)) = 200"
    unfolding get_submissions_def select_ok [OF w1(1) w1(3) w1(2)] by simp
  have g2: "status (fst (get_submissions ?w2)) = 200"
    unfolding get_submissions_def select_ok [OF w2(1) w2(3) w2(2)] by simp
  have p1: "status (fst (post_submit ada ?w1)) = 200"
  proof -
    have a: "fst (insert_submission ada ?w1) = Inr (next_id ?w1)"
      unfolding insert_submission_ok [OF valid_ada w1(1) w1(4) w1(2)] by simp
    have b: "mailOptions ?w1 ada = Inr ada_mail"
      unfolding mailOptions_ada [symmetric] by (rule mailOptions_env) (rule w1(6), rule w1(7))
    show ?thesis
      unfolding post_submit_sent [OF valid_ada w1(2) a b w1(5)] by (simp add: ok_response_def)
  qed
  have p2: "status (fst (post_submit ada ?w2)) = 200"
  proof -
    have a: "fst (insert_submission ada ?w2) = Inr (next_id ?w2)"
      unfolding insert_submission_ok [OF valid_ada w2(1) w2(4) w2(2)] by simp
    have b: "mailOptions ?w2 ada = Inr ada_mail"
      unfolding mailOptions_ada [symmetric] by (rule mailOptions_env) (rule w2(6), rule w2(7))
    show ?thesis
      unfolding post_submit_sent [OF valid_ada w2(2) a b w2(5)] by (simp add: ok_response_def)
  qed
  have f1: "fst (initialize_try create_rejected_world)
      = Inl (Error ''permission denied for schema public'')"
    unfolding i1 by simp
  have f2: "fst (initialize_try db_down_world) = Inl (Error ''connect ECONNREFUSED'')"
    unfolding i2 by simp
  from f1 g1 p1 f2 g2 p2 show ?thesis by (intro conjI)
qed

end
